theory Spec2Isabelle
  imports Complex_Main
begin

section \<open>Python values used by the echo chat model\<close>

text \<open>
  The development embeds the class \<open>ChatParrotLink\<close> of the how-to notebook
  \<open>docs/docs/how_to/custom_chat_model.ipynb\<close>: its methods \<open>_generate\<close> and \<open>_stream\<close>.
  An Isabelle name cannot start with an underscore, so the two methods are
  \<open>ChatParrotLink_generate\<close> and \<open>ChatParrotLink_stream\<close>.

  A Python \<open>str\<close> is a sequence of code points; the methods only take its length, slice it
  and iterate over it, so a text is a list over any type \<open>'c\<close> of code points.
  Every exception the two methods can raise is a value of \<open>error\<close>.
\<close>

datatype error = IndexError | UnboundLocalError

text \<open>
  The slice \<open>s[:n]\<close> of a sequence. A negative bound counts from the end of the sequence,
  and a bound outside the sequence is clipped to it.
\<close>

definition slice_upto :: "'a list \<Rightarrow> int \<Rightarrow> 'a list" where
  "slice_upto s n = (if n < 0 then take (nat (int (length s) + n)) s else take (nat n) s)"

text \<open>
  The content of a message is a \<open>str\<close> or a list of content blocks (each a \<open>str\<close> or a
  \<open>dict\<close>). The methods never look inside a block, so a block is a value of any type \<open>'b\<close>.
\<close>

datatype ('c, 'b) py_content = Text "'c list" | Blocks "'b list"

text \<open>\<open>len(content)\<close>: the number of characters of a text, of blocks of a list.\<close>

fun py_len :: "('c, 'b) py_content \<Rightarrow> nat" where
  "py_len (Text s) = length s"
| "py_len (Blocks bs) = length bs"

text \<open>\<open>content[:n]\<close>: the slice of a text is a text, the slice of a list is a list.\<close>

fun py_slice_upto :: "('c, 'b) py_content \<Rightarrow> int \<Rightarrow> ('c, 'b) py_content" where
  "py_slice_upto (Text s) n = Text (slice_upto s n)"
| "py_slice_upto (Blocks bs) n = Blocks (slice_upto bs n)"

text \<open>
  \<open>str(content)\<close>: a \<open>str\<close> is returned as it is; a list is turned into the text of its
  \<open>repr\<close>. The \<open>repr\<close> of a list of blocks belongs to the language and not to the notebook:
  it is the parameter \<open>list_repr\<close>.
\<close>

fun py_str :: "('b list \<Rightarrow> 'c list) \<Rightarrow> ('c, 'b) py_content \<Rightarrow> 'c list" where
  "py_str list_repr (Text s) = s"
| "py_str list_repr (Blocks bs) = list_repr bs"

text \<open>The values stored in the metadata dictionaries.\<close>

datatype 'c py_value = PyInt int | PyStr "'c list"

section \<open>Messages, generations and the model's fields\<close>

datatype message_class =
  HumanMessage | AIMessage | SystemMessage | FunctionMessage | ToolMessage | AIMessageChunk

record UsageMetadata =
  input_tokens :: int
  output_tokens :: int
  total_tokens :: int

text \<open>
  The dictionaries of a message keep their insertion order, as Python's do. A message
  built without \<open>additional_kwargs\<close> or \<open>response_metadata\<close> has the empty dictionary there,
  one built without \<open>usage_metadata\<close> has \<open>None\<close>.
\<close>

record ('c, 'b) BaseMessage =
  msg_class :: message_class
  content :: "('c, 'b) py_content"
  additional_kwargs :: "(string \<times> 'c py_value) list"
  response_metadata :: "(string \<times> 'c py_value) list"
  usage_metadata :: "UsageMetadata option"

text \<open>\<open>ChatGenerationChunk\<close> is \<open>ChatGeneration\<close>'s streaming variant, with the same field.\<close>

record ('c, 'b) ChatGeneration =
  message :: "('c, 'b) BaseMessage"

record ('c, 'b) ChatResult =
  generations :: "('c, 'b) ChatGeneration list"

text \<open>
  The declared fields of the class. \<open>temperature\<close> is an optional float that no method
  reads; it is kept as an optional real.
\<close>

record 'c ChatParrotLink =
  model_name :: "'c list"
  parrot_buffer_length :: int
  temperature :: "real option"
  max_tokens :: "int option"
  timeout :: "int option"
  stop :: "'c list list option"
  max_retries :: int

text \<open>
  The run manager is an object of the framework. The methods test whether one was given
  and call its \<open>on_llm_new_token(token, chunk=chunk)\<close>; the manager is modelled by the calls
  it has received, oldest first.
\<close>

type_synonym ('c, 'b) CallbackManagerForLLMRun = "('c list \<times> ('c, 'b) ChatGeneration) list"

definition on_llm_new_token ::
  "('c, 'b) CallbackManagerForLLMRun \<Rightarrow> 'c list \<Rightarrow> ('c, 'b) ChatGeneration \<Rightarrow>
   ('c, 'b) CallbackManagerForLLMRun" where
  "on_llm_new_token calls tok chunk = calls @ [(tok, chunk)]"

section \<open>The method \<open>_generate\<close>\<close>

text \<open>
  \<open>messages[-1]\<close> raises \<open>IndexError\<close> on the empty list. The slice of the last content is
  passed on as it is, text or list. The arguments \<open>stop\<close>, \<open>run_manager\<close> and \<open>**kwargs\<close>
  are accepted and never read.
\<close>

definition ChatParrotLink_generate ::
  "'c ChatParrotLink \<Rightarrow> ('c, 'b) BaseMessage list \<Rightarrow> 'c list list option \<Rightarrow>
   ('c, 'b) CallbackManagerForLLMRun option \<Rightarrow> (string \<times> 'c py_value) list \<Rightarrow>
   error + ('c, 'b) ChatResult" where
  "ChatParrotLink_generate self messages stop_arg run_mgr kwargs =
    (if messages = [] then Inl IndexError
     else
       let last_message = last messages;
           tokens = py_slice_upto (content last_message) (parrot_buffer_length self);
           ct_input = sum_list (map (\<lambda>m. int (py_len (content m))) messages);
           ct_output = int (py_len tokens);
           msg = \<lparr>msg_class = AIMessage,
                  content = tokens,
                  additional_kwargs = [],
                  response_metadata =
                    [(''time_in_seconds'', PyInt 3), (''model_name'', PyStr (model_name self))],
                  usage_metadata =
                    Some \<lparr>input_tokens = ct_input,
                          output_tokens = ct_output,
                          total_tokens = ct_input + ct_output\<rparr>\<rparr>;
           generation = \<lparr>message = msg\<rparr>
       in Inr \<lparr>generations = [generation]\<rparr>)"

section \<open>The generator \<open>_stream\<close>\<close>

text \<open>
  The frame of the generator while it runs: the counter \<open>ct_input_tokens\<close>, which the loop
  resets, the loop variable \<open>token\<close> (\<open>None\<close> while it is unbound), the run manager, and the
  chunks yielded so far.
\<close>

record ('c, 'b) stream_frame =
  ct_input_tokens :: int
  token :: "'c list option"
  run_manager :: "('c, 'b) CallbackManagerForLLMRun option"
  yielded :: "('c, 'b) ChatGeneration list"

text \<open>
  The loop \<open>for token in tokens\<close> over the text \<open>tokens\<close>: each iteration binds \<open>token\<close> to
  a one-character text, builds the usage record from the current counter, resets the
  counter, reports the chunk to the run manager when there is one, and yields the chunk.
\<close>

fun stream_loop :: "'c list \<Rightarrow> ('c, 'b) stream_frame \<Rightarrow> ('c, 'b) stream_frame" where
  "stream_loop [] fr = fr"
| "stream_loop (c # rest) fr =
    (let usage = \<lparr>input_tokens = ct_input_tokens fr,
                  output_tokens = 1,
                  total_tokens = ct_input_tokens fr + 1\<rparr>;
         chunk = \<lparr>message = \<lparr>msg_class = AIMessageChunk,
                              content = Text [c],
                              additional_kwargs = [],
                              response_metadata = [],
                              usage_metadata = Some usage\<rparr>\<rparr>;
         mgr = (case run_manager fr of
                  None \<Rightarrow> None
                | Some calls \<Rightarrow> Some (on_llm_new_token calls [c] chunk))
     in stream_loop rest
          \<lparr>ct_input_tokens = 0, token = Some [c], run_manager = mgr,
           yielded = yielded fr @ [chunk]\<rparr>)"

text \<open>
  What a complete iteration over the generator gives: the chunks it yielded, in order,
  the run manager afterwards, and the exception that ended it, if any.
\<close>

record ('c, 'b) stream_result =
  chunks :: "('c, 'b) ChatGeneration list"
  manager :: "('c, 'b) CallbackManagerForLLMRun option"
  raised :: "error option"

text \<open>
  \<open>messages[-1]\<close> raises \<open>IndexError\<close> on the empty list. Unlike \<open>_generate\<close>, the generator
  applies \<open>str\<close> to the slice of the last content, so \<open>tokens\<close> is always a text: the slice
  itself for a text content, the \<open>repr\<close> of the sliced list for a list content.

  After the loop the generator builds a last chunk with empty content and the response
  metadata. With a run manager it then calls \<open>on_llm_new_token(token, chunk=chunk)\<close>, which
  reads the loop variable: when the loop body never ran, \<open>token\<close> is unbound and the read
  raises \<open>UnboundLocalError\<close> before the last chunk is yielded.
\<close>

definition ChatParrotLink_stream ::
  "('b list \<Rightarrow> 'c list) \<Rightarrow> 'c ChatParrotLink \<Rightarrow> ('c, 'b) BaseMessage list \<Rightarrow>
   'c list list option \<Rightarrow> ('c, 'b) CallbackManagerForLLMRun option \<Rightarrow>
   (string \<times> 'c py_value) list \<Rightarrow> ('c, 'b) stream_result" where
  "ChatParrotLink_stream list_repr self messages stop_arg run_mgr kwargs =
    (if messages = [] then \<lparr>chunks = [], manager = run_mgr, raised = Some IndexError\<rparr>
     else
       let last_message = last messages;
           tokens = py_str list_repr
                      (py_slice_upto (content last_message) (parrot_buffer_length self));
           ct_input = sum_list (map (\<lambda>m. int (py_len (content m))) messages);
           fr = stream_loop tokens
                  \<lparr>ct_input_tokens = ct_input, token = None, run_manager = run_mgr,
                   yielded = []\<rparr>;
           chunk = \<lparr>message = \<lparr>msg_class = AIMessageChunk,
                                content = Text [],
                                additional_kwargs = [],
                                response_metadata =
                                  [(''time_in_sec'', PyInt 3),
                                   (''model_name'', PyStr (model_name self))],
                                usage_metadata = None\<rparr>\<rparr>
       in case run_manager fr of
            None \<Rightarrow> \<lparr>chunks = yielded fr @ [chunk], manager = None, raised = None\<rparr>
          | Some calls \<Rightarrow>
              (case token fr of
                 None \<Rightarrow> \<lparr>chunks = yielded fr, manager = Some calls,
                           raised = Some UnboundLocalError\<rparr>
               | Some tok \<Rightarrow> \<lparr>chunks = yielded fr @ [chunk],
                               manager = Some (on_llm_new_token calls tok chunk),
                               raised = None\<rparr>))"

text \<open>
  The text that \<open>_stream\<close> iterates over, for a non-empty list of messages:
  \<open>str(messages[-1].content[: self.parrot_buffer_length])\<close>.
\<close>

definition streamed_text ::
  "('b list \<Rightarrow> 'c list) \<Rightarrow> 'c ChatParrotLink \<Rightarrow> ('c, 'b) BaseMessage list \<Rightarrow> 'c list" where
  "streamed_text list_repr self messages =
     py_str list_repr (py_slice_upto (content (last messages)) (parrot_buffer_length self))"

section \<open>Observations on results\<close>

text \<open>The contents of a list of generations, in order, and their usage records.\<close>

definition contents_of :: "('c, 'b) ChatGeneration list \<Rightarrow> ('c, 'b) py_content list" where
  "contents_of gs = map (\<lambda>g. content (message g)) gs"

definition usages_of :: "('c, 'b) ChatGeneration list \<Rightarrow> UsageMetadata option list" where
  "usages_of gs = map (\<lambda>g. usage_metadata (message g)) gs"

text \<open>The total length of the contents of the input messages.\<close>

definition total_content_length :: "('c, 'b) BaseMessage list \<Rightarrow> int" where
  "total_content_length messages = sum_list (map (\<lambda>m. int (py_len (content m))) messages)"

text \<open>The token counts of a list of chunks, added up; a chunk without usage adds nothing.\<close>

definition summed_input_tokens :: "('c, 'b) ChatGeneration list \<Rightarrow> int" where
  "summed_input_tokens gs =
     sum_list (map (\<lambda>g. case usage_metadata (message g) of
                            None \<Rightarrow> 0 | Some u \<Rightarrow> input_tokens u) gs)"

definition summed_output_tokens :: "('c, 'b) ChatGeneration list \<Rightarrow> int" where
  "summed_output_tokens gs =
     sum_list (map (\<lambda>g. case usage_metadata (message g) of
                            None \<Rightarrow> 0 | Some u \<Rightarrow> output_tokens u) gs)"

section \<open>Values for the examples\<close>

text \<open>
  A human message with the given text, as \<open>HumanMessage(content=text)\<close> builds it, an AI
  message likewise, and a human message whose content is a list of blocks.
\<close>

definition human :: "'c list \<Rightarrow> ('c, 'b) BaseMessage" where
  "human text = \<lparr>msg_class = HumanMessage, content = Text text, additional_kwargs = [],
                 response_metadata = [], usage_metadata = None\<rparr>"

definition ai :: "'c list \<Rightarrow> ('c, 'b) BaseMessage" where
  "ai text = \<lparr>msg_class = AIMessage, content = Text text, additional_kwargs = [],
              response_metadata = [], usage_metadata = None\<rparr>"

definition human_blocks :: "'b list \<Rightarrow> ('c, 'b) BaseMessage" where
  "human_blocks bs = \<lparr>msg_class = HumanMessage, content = Blocks bs, additional_kwargs = [],
                      response_metadata = [], usage_metadata = None\<rparr>"

text \<open>
  The model as \<open>ChatParrotLink(parrot_buffer_length=n, model=name)\<close> builds it: the other
  fields take their declared defaults.
\<close>

definition ChatParrotLink_init :: "int \<Rightarrow> 'c list \<Rightarrow> 'c ChatParrotLink" where
  "ChatParrotLink_init n name =
     \<lparr>model_name = name, parrot_buffer_length = n, temperature = None, max_tokens = None,
      timeout = None, stop = None, max_retries = 2\<rparr>"

text \<open>
  The examples run on characters with code points 0 to 255 and on blocks that are texts.
  For them \<open>str_repr\<close> is Python's \<open>repr\<close> of a \<open>str\<close>: the text in single quotes, or in
  double quotes when it has a single quote and no double quote; the quote in use and the
  backslash are escaped with a backslash; tab, newline and carriage return are written
  \<open>\t\<close>, \<open>\n\<close>, \<open>\r\<close>; the other non-printable characters (below 32, 127 to 160, and 173)
  are written \<open>\xhh\<close> with two lower-case hexadecimal digits. \<open>str_list_repr\<close> is the
  \<open>repr\<close> of a list of such texts: the items separated by a comma and a space, in brackets.
\<close>

definition hex_digit :: "nat \<Rightarrow> char" where
  "hex_digit k = ''0123456789abcdef'' ! (k mod 16)"

definition repr_char :: "char \<Rightarrow> char \<Rightarrow> string" where
  "repr_char q c =
     (let k = (of_char c :: nat) in
      if c = q \<or> k = 92 then [CHR 0x5C, c]
      else if k = 9 then [CHR 0x5C, CHR ''t'']
      else if k = 10 then [CHR 0x5C, CHR ''n'']
      else if k = 13 then [CHR 0x5C, CHR ''r'']
      else if k < 32 \<or> (127 \<le> k \<and> k \<le> 160) \<or> k = 173
        then [CHR 0x5C, CHR ''x'', hex_digit (k div 16), hex_digit k]
      else [c])"

definition str_repr :: "string \<Rightarrow> string" where
  "str_repr s =
     (let single = CHR 0x27; double = CHR 0x22;
          q = (if single \<in> set s \<and> double \<notin> set s then double else single)
      in q # concat (map (repr_char q) s) @ [q])"

fun join_items :: "string list \<Rightarrow> string" where
  "join_items [] = []"
| "join_items [x] = x"
| "join_items (x # y # rest) = x @ '', '' @ join_items (y # rest)"

definition str_list_repr :: "string list \<Rightarrow> string" where
  "str_list_repr bs = ''['' @ join_items (map str_repr bs) @ '']''"

section \<open>The loop of \<open>_stream\<close>\<close>

lemmas eval_defs = ChatParrotLink_generate_def ChatParrotLink_stream_def ChatParrotLink_init_def
  human_def ai_def human_blocks_def slice_upto_def Let_def on_llm_new_token_def contents_of_def
  usages_of_def total_content_length_def summed_input_tokens_def summed_output_tokens_def
  streamed_text_def

lemma contents_of_append: "contents_of (xs @ ys) = contents_of xs @ contents_of ys"
  by (simp add: contents_of_def)

lemma contents_of_single: "contents_of [g] = [content (message g)]"
  by (simp add: contents_of_def)

lemma usages_of_append: "usages_of (xs @ ys) = usages_of xs @ usages_of ys"
  by (simp add: usages_of_def)

lemma usages_of_single: "usages_of [g] = [usage_metadata (message g)]"
  by (simp add: usages_of_def)

lemma concat_singletons: "concat (map (\<lambda>c. [c]) ts) = ts"
  by (induction ts) simp_all

text \<open>The loop yields one chunk per character, in order, after what was yielded before.\<close>

lemma stream_loop_contents:
  "contents_of (yielded (stream_loop ts fr)) =
     contents_of (yielded fr) @ map (\<lambda>c. Text [c]) ts"
  by (induction ts arbitrary: fr) (simp_all add: contents_of_def Let_def)

text \<open>The loop neither creates nor drops the run manager.\<close>

lemma stream_loop_manager_None:
  "run_manager fr = None \<Longrightarrow> run_manager (stream_loop ts fr) = None"
  by (induction ts arbitrary: fr) (simp_all add: Let_def)

lemma stream_loop_manager_Some:
  "run_manager fr = Some calls \<Longrightarrow> \<exists>calls'. run_manager (stream_loop ts fr) = Some calls'"
  by (induction ts arbitrary: fr calls) (simp_all add: Let_def)

text \<open>After at least one iteration the loop variable is bound, to the last character.\<close>

lemma stream_loop_token_Cons:
  "ts \<noteq> [] \<Longrightarrow> token (stream_loop ts fr) = Some [last ts]"
proof (induction ts arbitrary: fr)
  case Nil
  then show ?case by simp
next
  case (Cons c rest)
  show ?case
  proof (cases "rest = []")
    case True
    then show ?thesis by (simp add: Let_def)
  next
    case False
    with Cons.IH show ?thesis by (simp add: Let_def)
  qed
qed

text \<open>Once the counter is 0 every further chunk reports 0 input tokens.\<close>

lemma stream_loop_usages_zero:
  "ct_input_tokens fr = 0 \<Longrightarrow>
   usages_of (yielded (stream_loop ts fr)) =
     usages_of (yielded fr) @
     replicate (length ts) (Some \<lparr>input_tokens = 0, output_tokens = 1, total_tokens = 1\<rparr>)"
proof (induction ts arbitrary: fr)
  case Nil
  then show ?case by simp
next
  case (Cons c rest)
  then show ?case by (simp add: Let_def usages_of_def replicate_append_same)
qed

lemma stream_loop_usages:
  "usages_of (yielded (stream_loop (c # rest) fr)) =
     usages_of (yielded fr) @
     Some \<lparr>input_tokens = ct_input_tokens fr, output_tokens = 1,
           total_tokens = ct_input_tokens fr + 1\<rparr> #
     replicate (length rest) (Some \<lparr>input_tokens = 0, output_tokens = 1, total_tokens = 1\<rparr>)"
  by (simp add: Let_def stream_loop_usages_zero) (simp add: usages_of_def)

section \<open>How \<open>_stream\<close> ends and what it yields\<close>

text \<open>
  On a non-empty list the generator ends normally when no run manager was given or when
  the streamed text is not empty.
\<close>

lemma stream_raised_None:
  assumes "messages \<noteq> []"
    and "run_mgr = None \<or> streamed_text list_repr self messages \<noteq> []"
  shows "raised (ChatParrotLink_stream list_repr self messages stop_arg run_mgr kwargs) = None"
proof (cases run_mgr)
  case None
  then show ?thesis
    using assms(1) by (simp add: ChatParrotLink_stream_def Let_def stream_loop_manager_None)
next
  case (Some calls)
  with assms(2) have ne: "py_str list_repr
      (py_slice_upto (content (last messages)) (parrot_buffer_length self)) \<noteq> []"
    by (simp add: streamed_text_def)
  show ?thesis
    using assms(1) by (simp add: ChatParrotLink_stream_def Let_def stream_loop_token_Cons [OF ne]
        split: option.split)
qed

text \<open>
  With a run manager and an empty streamed text the read of the unbound loop variable
  ends the generator before it has yielded anything.
\<close>

lemma stream_raised_UnboundLocalError:
  assumes "messages \<noteq> []"
    and "streamed_text list_repr self messages = []"
  shows "ChatParrotLink_stream list_repr self messages stop_arg (Some calls) kwargs =
           \<lparr>chunks = [], manager = Some calls, raised = Some UnboundLocalError\<rparr>"
  using assms by (simp add: ChatParrotLink_stream_def Let_def streamed_text_def)

lemma stream_raised_not_IndexError:
  "messages \<noteq> [] \<Longrightarrow>
   raised (ChatParrotLink_stream list_repr self messages stop_arg run_mgr kwargs) \<noteq>
     Some IndexError"
  by (simp add: ChatParrotLink_stream_def Let_def split: option.split)

lemma stream_chunks_contents:
  assumes "messages \<noteq> []"
  shows "contents_of (chunks (ChatParrotLink_stream list_repr self messages stop_arg run_mgr kwargs)) =
           map (\<lambda>c. Text [c]) (streamed_text list_repr self messages) @
           (if raised (ChatParrotLink_stream list_repr self messages stop_arg run_mgr kwargs) = None
            then [Text []] else [])"
  using assms
  by (simp add: ChatParrotLink_stream_def Let_def stream_loop_contents contents_of_append
      contents_of_single streamed_text_def split: option.split)
     (simp add: contents_of_def)

text \<open>
  The usage records of the content chunks: the first carries the input count, the later
  ones 0, each of them 1 output token.
\<close>

lemma stream_usages:
  assumes "messages \<noteq> []"
    and "streamed_text list_repr self messages = c # rest"
  shows "usages_of (chunks (ChatParrotLink_stream list_repr self messages stop_arg run_mgr kwargs)) =
           Some \<lparr>input_tokens = total_content_length messages, output_tokens = 1,
                 total_tokens = total_content_length messages + 1\<rparr> #
           replicate (length rest) (Some \<lparr>input_tokens = 0, output_tokens = 1, total_tokens = 1\<rparr>) @
           [None]"
proof -
  let ?fr = "\<lparr>ct_input_tokens = total_content_length messages, token = None,
              run_manager = run_mgr, yielded = []\<rparr>"
  have loop: "usages_of (yielded (stream_loop (c # rest) ?fr)) =
      Some \<lparr>input_tokens = total_content_length messages, output_tokens = 1,
            total_tokens = total_content_length messages + 1\<rparr> #
      replicate (length rest) (Some \<lparr>input_tokens = 0, output_tokens = 1, total_tokens = 1\<rparr>)"
    using stream_loop_usages [of c rest ?fr] by (simp add: usages_of_def)
  have tok: "token (stream_loop (c # rest) ?fr) \<noteq> None"
    using stream_loop_token_Cons [of "c # rest" ?fr] by simp
  show ?thesis
    using assms loop tok
    by (auto simp add: ChatParrotLink_stream_def Let_def total_content_length_def usages_of_append
        usages_of_single streamed_text_def simp del: stream_loop.simps split: option.split)
qed

text \<open>With an empty streamed text there is no content chunk, and no usage record at all.\<close>

lemma stream_usages_Nil:
  assumes "messages \<noteq> []"
    and "streamed_text list_repr self messages = []"
  shows "usages_of (chunks (ChatParrotLink_stream list_repr self messages stop_arg run_mgr kwargs)) =
           (if run_mgr = None then [None] else [])"
  using assms
  by (auto simp add: ChatParrotLink_stream_def Let_def usages_of_def streamed_text_def
      split: option.split)

lemma summed_input_tokens_usages:
  "summed_input_tokens gs =
     sum_list (map (\<lambda>u. case u of None \<Rightarrow> 0 | Some u \<Rightarrow> input_tokens u) (usages_of gs))"
  by (simp add: summed_input_tokens_def usages_of_def comp_def)

lemma summed_output_tokens_usages:
  "summed_output_tokens gs =
     sum_list (map (\<lambda>u. case u of None \<Rightarrow> 0 | Some u \<Rightarrow> output_tokens u) (usages_of gs))"
  by (simp add: summed_output_tokens_def usages_of_def comp_def)

lemma sum_list_replicate_zero: "sum_list (replicate n (0::int)) = 0"
  by (induction n) simp_all

lemma sum_list_replicate_one: "sum_list (replicate n (1::int)) = int n"
  by (induction n) simp_all

text \<open>
  Whenever the generator ends normally it has yielded one chunk per character of the
  streamed text and then a last chunk with empty content, no usage record and the model's
  name in its response metadata.
\<close>

lemma stream_chunks_shape:
  assumes "messages \<noteq> []"
    and "run_mgr = None \<or> streamed_text list_repr self messages \<noteq> []"
  shows "\<exists>front final.
           chunks (ChatParrotLink_stream list_repr self messages stop_arg run_mgr kwargs) =
             front @ [final] \<and>
           contents_of front = map (\<lambda>c. Text [c]) (streamed_text list_repr self messages) \<and>
           content (message final) = Text [] \<and>
           map_of (response_metadata (message final)) ''model_name'' =
             Some (PyStr (model_name self)) \<and>
           usage_metadata (message final) = None"
proof -
  let ?res = "ChatParrotLink_stream list_repr self messages stop_arg run_mgr kwargs"
  let ?toks = "streamed_text list_repr self messages"
  let ?final = "\<lparr>message = \<lparr>msg_class = AIMessageChunk, content = Text [],
      additional_kwargs = [],
      response_metadata = [(''time_in_sec'', PyInt 3), (''model_name'', PyStr (model_name self))],
      usage_metadata = None\<rparr>\<rparr>"
  have ok: "raised ?res = None"
    by (rule stream_raised_None [OF assms])
  have "\<exists>front. chunks ?res = front @ [?final]"
    using assms(1) ok
    by (simp add: ChatParrotLink_stream_def Let_def split: option.splits)
  then obtain front where fr: "chunks ?res = front @ [?final]" ..
  have "contents_of (chunks ?res) = map (\<lambda>c. Text [c]) ?toks @ [Text []]"
    using stream_chunks_contents [OF assms(1), of list_repr self stop_arg run_mgr kwargs] ok
    by simp
  with fr have "contents_of front = map (\<lambda>c. Text [c]) ?toks"
    by (simp add: contents_of_append contents_of_single)
  with fr show ?thesis by simp
qed

text \<open>
  On the prompt \<open>cat\<close> the generator yields the contents \<open>c\<close>, \<open>a\<close>, \<open>t\<close> and the empty text,
  which the notebook prints as \<open>c|a|t||\<close>.
\<close>

lemma stream_cat:
  "contents_of (chunks (ChatParrotLink_stream str_list_repr
     (ChatParrotLink_init 3 ''my_custom_model'') [human ''cat''] None (Some []) [])) =
     [Text ''c'', Text ''a'', Text ''t'', Text '''']"
  by (simp add: eval_defs)

section \<open>The result of \<open>_generate\<close>\<close>

text \<open>
  C1, as amended. For every non-empty list of input messages and every
  \<open>parrot_buffer_length\<close> that is not negative, \<open>_generate\<close> returns a result with exactly
  one generation; its message is an \<open>AIMessage\<close> whose content is the first
  \<open>parrot_buffer_length\<close> characters of the content of the last message (its first
  \<open>parrot_buffer_length\<close> blocks when that content is a list of blocks): the whole content
  when it is not longer than \<open>parrot_buffer_length\<close>.
\<close>

theorem generate_echoes_prefix:
  assumes "messages \<noteq> []" and "0 \<le> parrot_buffer_length self"
  shows "\<exists>msg. ChatParrotLink_generate self messages stop_arg run_mgr kwargs =
                 Inr \<lparr>generations = [\<lparr>message = msg\<rparr>]\<rparr> \<and>
               msg_class msg = AIMessage \<and>
               content msg =
                 (case content (last messages) of
                    Text s \<Rightarrow> Text (take (nat (parrot_buffer_length self)) s)
                  | Blocks bs \<Rightarrow> Blocks (take (nat (parrot_buffer_length self)) bs)) \<and>
               content msg =
                 (if int (py_len (content (last messages))) \<le> parrot_buffer_length self
                  then content (last messages)
                  else (case content (last messages) of
                          Text s \<Rightarrow> Text (take (nat (parrot_buffer_length self)) s)
                        | Blocks bs \<Rightarrow> Blocks (take (nat (parrot_buffer_length self)) bs)))"
  using assms
  by (cases "content (last messages)")
     (simp_all add: ChatParrotLink_generate_def Let_def slice_upto_def)

text \<open>
  The notebook's first run: the model with \<open>parrot_buffer_length=3\<close> answers the three
  messages ending in \<open>Meow!\<close> with \<open>Meo\<close>.
\<close>

theorem generate_echoes_prefix_witness:
  "([human ''hello!'', ai ''Hi there human!'', human ''Meow!'']
      :: (char, string) BaseMessage list) \<noteq> [] \<and>
   0 \<le> parrot_buffer_length (ChatParrotLink_init 3 ''my_custom_model'') \<and>
   (\<exists>msg :: (char, string) BaseMessage.
      ChatParrotLink_generate (ChatParrotLink_init 3 ''my_custom_model'')
        [human ''hello!'', ai ''Hi there human!'', human ''Meow!''] None None [] =
        Inr \<lparr>generations = [\<lparr>message = msg\<rparr>]\<rparr> \<and>
      msg_class msg = AIMessage \<and> content msg = Text ''Meo'')"
  using generate_echoes_prefix
    [of "[human ''hello!'', ai ''Hi there human!'', human ''Meow!''] :: (char, string) BaseMessage list"
      "ChatParrotLink_init 3 ''my_custom_model''" None None "[]"]
  by (simp add: ChatParrotLink_init_def human_def)

text \<open>
  The field \<open>parrot_buffer_length\<close> is any integer. With \<open>parrot_buffer_length=-1\<close> the
  slice \<open>content[:-1]\<close> drops the last character: the answer to \<open>hello\<close> is \<open>hell\<close>, which is
  not the first \<open>-1\<close> characters of \<open>hello\<close>.
\<close>

theorem generate_echoes_prefix_counterexample:
  "ChatParrotLink_generate (ChatParrotLink_init (- 1) ''bird-brain-001'')
     [human ''hello''] None None [] =
     Inr \<lparr>generations = [\<lparr>message =
       \<lparr>msg_class = AIMessage, content = (Text ''hell'' :: (char, string) py_content),
        additional_kwargs = [],
        response_metadata =
          [(''time_in_seconds'', PyInt 3), (''model_name'', PyStr ''bird-brain-001'')],
        usage_metadata =
          Some \<lparr>input_tokens = 5, output_tokens = 4, total_tokens = 9\<rparr>\<rparr>\<rparr>]\<rparr> \<and>
   ''hell'' \<noteq> take (nat (- 1)) ''hello''"
  by (simp add: eval_defs)

text \<open>
  C2, as amended. For every input that ends with a prompt message, whatever precedes it,
  and every \<open>parrot_buffer_length\<close> that is not negative, the content of the message
  returned by \<open>_generate\<close> is the prompt's content truncated to \<open>parrot_buffer_length\<close>
  characters (blocks, for a list of blocks); its length is the smaller of
  \<open>parrot_buffer_length\<close> and the length of the prompt's content.
\<close>

theorem generate_truncates_prompt:
  assumes "0 \<le> parrot_buffer_length self"
  shows "\<exists>r. ChatParrotLink_generate self (history @ [prompt]) stop_arg run_mgr kwargs = Inr r \<and>
             contents_of (generations r) =
               [case content prompt of
                  Text s \<Rightarrow> Text (take (nat (parrot_buffer_length self)) s)
                | Blocks bs \<Rightarrow> Blocks (take (nat (parrot_buffer_length self)) bs)] \<and>
             map (\<lambda>c. int (py_len c)) (contents_of (generations r)) =
               [min (parrot_buffer_length self) (int (py_len (content prompt)))]"
  using assms
  by (cases "content prompt")
     (auto simp add: ChatParrotLink_generate_def Let_def slice_upto_def contents_of_def)

text \<open>The prompt \<open>goodbye\<close> is answered with \<open>goo\<close>, as in the notebook's output.\<close>

theorem generate_truncates_prompt_witness:
  "0 \<le> parrot_buffer_length (ChatParrotLink_init 3 ''my_custom_model'') \<and>
   (\<exists>r :: (char, string) ChatResult.
      ChatParrotLink_generate (ChatParrotLink_init 3 ''my_custom_model'')
        ([] @ [human ''goodbye'']) None None [] = Inr r \<and>
      contents_of (generations r) = [Text ''goo''] \<and>
      map (\<lambda>c. int (py_len c)) (contents_of (generations r)) = [3])"
  using generate_truncates_prompt [of "ChatParrotLink_init 3 ''my_custom_model''" "[]"
      "human ''goodbye'' :: (char, string) BaseMessage" None None "[]"]
  by (simp add: ChatParrotLink_init_def human_def)

text \<open>
  With \<open>parrot_buffer_length=-2\<close> the answer to \<open>goodbye\<close> is \<open>goodb\<close>, five characters,
  and not a truncation to \<open>-2\<close> characters.
\<close>

theorem generate_truncates_prompt_counterexample:
  "contents_of (generations (projr (ChatParrotLink_generate
     (ChatParrotLink_init (- 2) ''my_custom_model'') [human ''goodbye''] None None []))) =
     [Text ''goodb'' :: (char, string) py_content] \<and>
   ''goodb'' \<noteq> take (nat (- 2)) ''goodbye''"
  by (simp add: eval_defs)

text \<open>
  C3. For every non-empty list of input messages the message returned by \<open>_generate\<close>
  carries usage metadata in which \<open>input_tokens\<close> is the sum of the content lengths of all
  input messages, \<open>output_tokens\<close> is the length of the echoed content, and \<open>total_tokens\<close>
  is their sum.
\<close>

theorem generate_usage_metadata:
  assumes "messages \<noteq> []"
  shows "\<exists>msg u. ChatParrotLink_generate self messages stop_arg run_mgr kwargs =
                   Inr \<lparr>generations = [\<lparr>message = msg\<rparr>]\<rparr> \<and>
                 usage_metadata msg = Some u \<and>
                 input_tokens u = total_content_length messages \<and>
                 output_tokens u = int (py_len (content msg)) \<and>
                 content msg =
                   py_slice_upto (content (last messages)) (parrot_buffer_length self) \<and>
                 total_tokens u = input_tokens u + output_tokens u"
  using assms by (simp add: ChatParrotLink_generate_def Let_def total_content_length_def)

text \<open>The notebook's first run reports 26 input tokens, 3 output tokens and 29 in total.\<close>

theorem generate_usage_metadata_witness:
  "([human ''hello!'', ai ''Hi there human!'', human ''Meow!'']
      :: (char, string) BaseMessage list) \<noteq> [] \<and>
   (\<exists>(msg :: (char, string) BaseMessage) u.
      ChatParrotLink_generate (ChatParrotLink_init 3 ''my_custom_model'')
        [human ''hello!'', ai ''Hi there human!'', human ''Meow!''] None None [] =
        Inr \<lparr>generations = [\<lparr>message = msg\<rparr>]\<rparr> \<and>
      usage_metadata msg = Some u \<and>
      input_tokens u = 26 \<and> output_tokens u = 3 \<and> total_tokens u = 29)"
  using generate_usage_metadata
    [of "[human ''hello!'', ai ''Hi there human!'', human ''Meow!''] :: (char, string) BaseMessage list"
      "ChatParrotLink_init 3 ''my_custom_model''" None None "[]"]
  by (auto simp add: ChatParrotLink_init_def human_def ai_def total_content_length_def
      slice_upto_def)

section \<open>Streaming against single generation\<close>

text \<open>
  C4, as amended. For every non-empty list of input messages whose last message has a
  text content, every chunk yielded by \<open>_stream\<close> has a text content, and these texts,
  concatenated in order, are the content of the one message that \<open>_generate\<close> returns on
  the same messages, whatever the other arguments of the two calls are.
\<close>

theorem stream_concat_eq_generate:
  assumes "messages \<noteq> []" and "content (last messages) = Text s"
  shows "\<exists>msg ts. ChatParrotLink_generate self messages stop_arg run_mgr kwargs =
                    Inr \<lparr>generations = [\<lparr>message = msg\<rparr>]\<rparr> \<and>
                  contents_of (chunks
                    (ChatParrotLink_stream list_repr self messages stop_arg' run_mgr' kwargs')) =
                    map Text ts \<and>
                  content msg = Text (concat ts)"
proof -
  let ?res = "ChatParrotLink_stream list_repr self messages stop_arg' run_mgr' kwargs'"
  let ?toks = "slice_upto s (parrot_buffer_length self)"
  let ?ts = "map (\<lambda>c. [c]) ?toks @ (if raised ?res = None then [[]] else [])"
  let ?msg = "\<lparr>msg_class = AIMessage, content = Text ?toks, additional_kwargs = [],
      response_metadata =
        [(''time_in_seconds'', PyInt 3), (''model_name'', PyStr (model_name self))],
      usage_metadata =
        Some \<lparr>input_tokens = total_content_length messages,
              output_tokens = int (length ?toks),
              total_tokens = total_content_length messages + int (length ?toks)\<rparr>\<rparr>"
  have toks: "streamed_text list_repr self messages = ?toks"
    using assms(2) by (simp add: streamed_text_def)
  have gen: "ChatParrotLink_generate self messages stop_arg run_mgr kwargs =
      Inr \<lparr>generations = [\<lparr>message = ?msg\<rparr>]\<rparr>"
    using assms by (simp add: ChatParrotLink_generate_def Let_def total_content_length_def)
  have str: "contents_of (chunks ?res) = map Text ?ts"
    using stream_chunks_contents [OF assms(1), of list_repr self stop_arg' run_mgr' kwargs']
    by (simp add: toks comp_def)
  have cat: "content ?msg = Text (concat ?ts)"
    by (simp add: concat_singletons)
  from gen str cat show ?thesis by blast
qed

theorem stream_concat_eq_generate_witness:
  "([human ''cat''] :: (char, string) BaseMessage list) \<noteq> [] \<and>
   content (last ([human ''cat''] :: (char, string) BaseMessage list)) = Text ''cat'' \<and>
   (\<exists>msg ts. ChatParrotLink_generate (ChatParrotLink_init 3 ''my_custom_model'')
               [human ''cat''] None None [] = Inr \<lparr>generations = [\<lparr>message = msg\<rparr>]\<rparr> \<and>
             contents_of (chunks (ChatParrotLink_stream str_list_repr
               (ChatParrotLink_init 3 ''my_custom_model'') [human ''cat''] None (Some []) [])) =
               map Text ts \<and>
             content msg = Text (concat ts) \<and>
             content msg = Text ''cat'')"
  using stream_concat_eq_generate [of "[human ''cat'']" "''cat''"
      "ChatParrotLink_init 3 ''my_custom_model''" None None "[]" str_list_repr None "Some []" "[]"]
  by (auto simp add: human_def ChatParrotLink_generate_def ChatParrotLink_init_def Let_def
      slice_upto_def)

text \<open>
  A last message whose content is the list of blocks \<open>['ab', 'cd']\<close>: \<open>_generate\<close> returns
  the list itself as content, while \<open>_stream\<close> yields the twelve characters of the text
  \<open>['ab', 'cd']\<close>, the \<open>str\<close> of the list, and the empty last chunk. The concatenation is a
  text and not the list.
\<close>

theorem stream_concat_eq_generate_counterexample:
  "contents_of (generations (projr (ChatParrotLink_generate
     (ChatParrotLink_init 3 ''my_custom_model'') [human_blocks [''ab'', ''cd'']] None None []))) =
     [Blocks [''ab'', ''cd'']] \<and>
   contents_of (chunks (ChatParrotLink_stream str_list_repr
     (ChatParrotLink_init 3 ''my_custom_model'') [human_blocks [''ab'', ''cd'']] None None [])) =
     map Text [''['', [CHR 0x27], ''a'', ''b'', [CHR 0x27], '','', '' '',
               [CHR 0x27], ''c'', ''d'', [CHR 0x27], '']'', ''''] \<and>
   (Text (concat [''['', [CHR 0x27], ''a'', ''b'', [CHR 0x27], '','', '' '',
                  [CHR 0x27], ''c'', ''d'', [CHR 0x27], '']'', '''']) :: (char, string) py_content) \<noteq>
     Blocks [''ab'', ''cd'']"
  by code_simp

section \<open>Fields that no method reads\<close>

text \<open>
  C5. Two models that agree on \<open>parrot_buffer_length\<close> and \<open>model_name\<close> give the same
  result of \<open>_generate\<close> and the same run of \<open>_stream\<close> on every input, however they differ
  in \<open>temperature\<close>, \<open>max_tokens\<close>, \<open>timeout\<close>, \<open>stop\<close> and \<open>max_retries\<close>.
\<close>

theorem unread_fields_have_no_effect:
  assumes "parrot_buffer_length a = parrot_buffer_length b" and "model_name a = model_name b"
  shows "ChatParrotLink_generate a messages stop_arg run_mgr kwargs =
           ChatParrotLink_generate b messages stop_arg run_mgr kwargs \<and>
         ChatParrotLink_stream list_repr a messages stop_arg run_mgr kwargs =
           ChatParrotLink_stream list_repr b messages stop_arg run_mgr kwargs"
  using assms by (simp add: ChatParrotLink_generate_def ChatParrotLink_stream_def)

theorem unread_fields_have_no_effect_witness:
  "parrot_buffer_length (ChatParrotLink_init 3 ''my_custom_model'') =
     parrot_buffer_length
       \<lparr>model_name = ''my_custom_model'', parrot_buffer_length = 3, temperature = Some 1,
        max_tokens = Some 16, timeout = Some 30, stop = Some [''!''], max_retries = 5\<rparr> \<and>
   model_name (ChatParrotLink_init 3 ''my_custom_model'') =
     model_name
       \<lparr>model_name = ''my_custom_model'', parrot_buffer_length = 3, temperature = Some 1,
        max_tokens = Some 16, timeout = Some 30, stop = Some [''!''], max_retries = 5\<rparr> \<and>
   ChatParrotLink_generate (ChatParrotLink_init 3 ''my_custom_model'')
       ([human ''Meow!''] :: (char, string) BaseMessage list) None None [] =
     ChatParrotLink_generate
       \<lparr>model_name = ''my_custom_model'', parrot_buffer_length = 3, temperature = Some 1,
        max_tokens = Some 16, timeout = Some 30, stop = Some [''!''], max_retries = 5\<rparr>
       [human ''Meow!''] None None [] \<and>
   ChatParrotLink_stream str_list_repr (ChatParrotLink_init 3 ''my_custom_model'')
       [human ''Meow!''] None None [] =
     ChatParrotLink_stream str_list_repr
       \<lparr>model_name = ''my_custom_model'', parrot_buffer_length = 3, temperature = Some 1,
        max_tokens = Some 16, timeout = Some 30, stop = Some [''!''], max_retries = 5\<rparr>
       [human ''Meow!''] None None []"
  using unread_fields_have_no_effect [of "ChatParrotLink_init 3 ''my_custom_model''"
      "\<lparr>model_name = ''my_custom_model'', parrot_buffer_length = 3, temperature = Some 1,
        max_tokens = Some 16, timeout = Some 30, stop = Some [''!''], max_retries = 5\<rparr>"
      "[human ''Meow!''] :: (char, string) BaseMessage list" None None "[]" str_list_repr]
  by (simp add: ChatParrotLink_init_def)

section \<open>The empty list of messages\<close>

text \<open>
  C8. On the empty list of messages \<open>_generate\<close> raises \<open>IndexError\<close> and returns no
  result, and \<open>_stream\<close> raises \<open>IndexError\<close> before it yields a chunk or calls the run
  manager. On a non-empty list neither of them raises \<open>IndexError\<close>.
\<close>

theorem empty_messages_raise_IndexError:
  "ChatParrotLink_generate self [] stop_arg run_mgr kwargs = Inl IndexError \<and>
   ChatParrotLink_stream list_repr self [] stop_arg run_mgr kwargs =
     \<lparr>chunks = [], manager = run_mgr, raised = Some IndexError\<rparr> \<and>
   (messages \<noteq> [] \<longrightarrow>
      ChatParrotLink_generate self messages stop_arg run_mgr kwargs \<noteq> Inl IndexError \<and>
      raised (ChatParrotLink_stream list_repr self messages stop_arg run_mgr kwargs) \<noteq>
        Some IndexError)"
  by (simp add: stream_raised_not_IndexError)
     (simp add: ChatParrotLink_generate_def ChatParrotLink_stream_def Let_def)

theorem empty_messages_raise_IndexError_witness:
  "ChatParrotLink_generate (ChatParrotLink_init 3 ''my_custom_model'')
     ([] :: (char, string) BaseMessage list) None (Some []) [] = Inl IndexError \<and>
   ChatParrotLink_stream str_list_repr (ChatParrotLink_init 3 ''my_custom_model'')
     [] None (Some []) [] =
     \<lparr>chunks = [], manager = Some [], raised = Some IndexError\<rparr> \<and>
   ([human ''cat''] :: (char, string) BaseMessage list) \<noteq> [] \<and>
   ChatParrotLink_generate (ChatParrotLink_init 3 ''my_custom_model'')
     ([human ''cat''] :: (char, string) BaseMessage list) None (Some []) [] \<noteq> Inl IndexError \<and>
   raised (ChatParrotLink_stream str_list_repr (ChatParrotLink_init 3 ''my_custom_model'')
     [human ''cat''] None (Some []) []) \<noteq> Some IndexError"
  using empty_messages_raise_IndexError [of "ChatParrotLink_init 3 ''my_custom_model''"
      None "Some []" "[]" str_list_repr "[human ''cat'']"]
  by simp

section \<open>Token accounting of \<open>_stream\<close>\<close>

text \<open>
  C9, as amended. For every non-empty list of input messages, with the streamed text
  being the \<open>str\<close> of the truncated last content: the content chunks yielded by \<open>_stream\<close>
  are as many as the streamed text has characters; the first of them reports the total
  content length of all input messages as \<open>input_tokens\<close>, every later one reports 0, and
  each reports 1 as \<open>output_tokens\<close>, so the \<open>output_tokens\<close> of all chunks add up to the
  length of the streamed text; when the streamed text is not empty the \<open>input_tokens\<close> of
  all chunks add up to the total content length of the input; and when no run manager is
  given or the streamed text is not empty, one more chunk follows the content chunks and
  it has no usage metadata.
\<close>

theorem stream_token_accounting:
  assumes "messages \<noteq> []"
  shows "take (length (streamed_text list_repr self messages))
           (usages_of (chunks
             (ChatParrotLink_stream list_repr self messages stop_arg run_mgr kwargs))) =
           (case streamed_text list_repr self messages of
              [] \<Rightarrow> []
            | c # rest \<Rightarrow>
                Some \<lparr>input_tokens = total_content_length messages, output_tokens = 1,
                      total_tokens = total_content_length messages + 1\<rparr> #
                replicate (length rest)
                  (Some \<lparr>input_tokens = 0, output_tokens = 1, total_tokens = 1\<rparr>)) \<and>
         summed_output_tokens (chunks
           (ChatParrotLink_stream list_repr self messages stop_arg run_mgr kwargs)) =
           int (length (streamed_text list_repr self messages)) \<and>
         (streamed_text list_repr self messages \<noteq> [] \<longrightarrow>
            summed_input_tokens (chunks
              (ChatParrotLink_stream list_repr self messages stop_arg run_mgr kwargs)) =
              total_content_length messages) \<and>
         (run_mgr = None \<or> streamed_text list_repr self messages \<noteq> [] \<longrightarrow>
            drop (length (streamed_text list_repr self messages))
              (usages_of (chunks
                (ChatParrotLink_stream list_repr self messages stop_arg run_mgr kwargs))) =
              [None])"
proof (cases "streamed_text list_repr self messages")
  case Nil
  show ?thesis
    by (simp add: Nil summed_output_tokens_usages stream_usages_Nil [OF assms Nil])
next
  case (Cons c rest)
  show ?thesis
    by (simp add: Cons summed_input_tokens_usages summed_output_tokens_usages
        stream_usages [OF assms Cons] sum_list_replicate_zero sum_list_replicate_one)
qed

text \<open>
  The prompt \<open>cat\<close> with a run manager: usage \<open>(3, 1, 4)\<close>, then twice
  \<open>(0, 1, 1)\<close>, then none. The same prompt with \<open>parrot_buffer_length=0\<close> and no run manager:
  no content chunk, 0 output tokens, and the last chunk without usage.
\<close>

theorem stream_token_accounting_witness:
  "(([human ''cat''] :: (char, string) BaseMessage list) \<noteq> [] \<and>
    streamed_text str_list_repr (ChatParrotLink_init 3 ''my_custom_model'') [human ''cat''] \<noteq> [] \<and>
    usages_of (chunks (ChatParrotLink_stream str_list_repr
      (ChatParrotLink_init 3 ''my_custom_model'') [human ''cat''] None (Some []) [])) =
      [Some \<lparr>input_tokens = 3, output_tokens = 1, total_tokens = 4\<rparr>,
       Some \<lparr>input_tokens = 0, output_tokens = 1, total_tokens = 1\<rparr>,
       Some \<lparr>input_tokens = 0, output_tokens = 1, total_tokens = 1\<rparr>,
       None] \<and>
    summed_input_tokens (chunks (ChatParrotLink_stream str_list_repr
      (ChatParrotLink_init 3 ''my_custom_model'') [human ''cat''] None (Some []) [])) = 3 \<and>
    summed_output_tokens (chunks (ChatParrotLink_stream str_list_repr
      (ChatParrotLink_init 3 ''my_custom_model'') [human ''cat''] None (Some []) [])) = 3) \<and>
   (streamed_text str_list_repr (ChatParrotLink_init 0 ''my_custom_model'') [human ''cat''] = [] \<and>
    usages_of (chunks (ChatParrotLink_stream str_list_repr
      (ChatParrotLink_init 0 ''my_custom_model'') [human ''cat''] None None [])) = [None] \<and>
    summed_output_tokens (chunks (ChatParrotLink_stream str_list_repr
      (ChatParrotLink_init 0 ''my_custom_model'') [human ''cat''] None None [])) = 0)"
proof -
  have toks: "streamed_text str_list_repr (ChatParrotLink_init 3 ''my_custom_model'')
      [human ''cat''] = ''cat''"
    by (simp add: streamed_text_def ChatParrotLink_init_def human_def slice_upto_def)
  have none: "streamed_text str_list_repr (ChatParrotLink_init 0 ''my_custom_model'')
      [human ''cat''] = []"
    by (simp add: streamed_text_def ChatParrotLink_init_def human_def slice_upto_def)
  have total: "total_content_length ([human ''cat''] :: (char, string) BaseMessage list) = 3"
    by (simp add: total_content_length_def human_def)
  let ?run = "ChatParrotLink_stream str_list_repr (ChatParrotLink_init 3 ''my_custom_model'')
      [human ''cat''] None (Some []) []"
  from stream_token_accounting [of "[human ''cat'']" str_list_repr
      "ChatParrotLink_init 3 ''my_custom_model''" None "Some []" "[]"]
  have front: "take 3 (usages_of (chunks ?run)) =
      [Some \<lparr>input_tokens = 3, output_tokens = 1, total_tokens = 4\<rparr>,
       Some \<lparr>input_tokens = 0, output_tokens = 1, total_tokens = 1\<rparr>,
       Some \<lparr>input_tokens = 0, output_tokens = 1, total_tokens = 1\<rparr>]"
    and final: "drop 3 (usages_of (chunks ?run)) = [None]"
    and sums: "summed_input_tokens (chunks ?run) = 3" "summed_output_tokens (chunks ?run) = 3"
    by (simp_all add: toks total numeral_2_eq_2 numeral_3_eq_3)
  have whole: "usages_of (chunks ?run) =
      take 3 (usages_of (chunks ?run)) @ drop 3 (usages_of (chunks ?run))"
    by simp
  have first: "usages_of (chunks ?run) =
      [Some \<lparr>input_tokens = 3, output_tokens = 1, total_tokens = 4\<rparr>,
       Some \<lparr>input_tokens = 0, output_tokens = 1, total_tokens = 1\<rparr>,
       Some \<lparr>input_tokens = 0, output_tokens = 1, total_tokens = 1\<rparr>,
       None]"
    by (subst whole) (simp only: front final append.simps)
  from stream_token_accounting [of "[human ''cat'']" str_list_repr
      "ChatParrotLink_init 0 ''my_custom_model''" None None "[]"]
  have second: "usages_of (chunks (ChatParrotLink_stream str_list_repr
        (ChatParrotLink_init 0 ''my_custom_model'') [human ''cat''] None None [])) = [None]"
      "summed_output_tokens (chunks (ChatParrotLink_stream str_list_repr
        (ChatParrotLink_init 0 ''my_custom_model'') [human ''cat''] None None [])) = 0"
    by (simp_all add: none)
  show ?thesis
    by (simp add: toks none first sums second)
qed

text \<open>
  With \<open>parrot_buffer_length=0\<close> the streamed text is empty: \<open>_stream\<close> yields the last chunk
  only, which has no usage metadata, so the \<open>input_tokens\<close> of its chunks add up to 0 while
  the input has 3 characters.
\<close>

theorem stream_token_accounting_counterexample:
  "ChatParrotLink_stream str_list_repr (ChatParrotLink_init 0 ''my_custom_model'')
     [human ''cat''] None None [] =
     \<lparr>chunks = [\<lparr>message =
        \<lparr>msg_class = AIMessageChunk, content = Text [], additional_kwargs = [],
         response_metadata =
           [(''time_in_sec'', PyInt 3), (''model_name'', PyStr ''my_custom_model'')],
         usage_metadata = None\<rparr>\<rparr>],
      manager = None, raised = None\<rparr> \<and>
   summed_input_tokens (chunks (ChatParrotLink_stream str_list_repr
     (ChatParrotLink_init 0 ''my_custom_model'') [human ''cat''] None None [])) \<noteq>
     total_content_length ([human ''cat''] :: (char, string) BaseMessage list)"
  by (simp add: eval_defs)

section \<open>The number of chunks of \<open>_stream\<close>\<close>

text \<open>
  C10. The claim is that \<open>_stream\<close> yields \<open>L + 1\<close> chunks on every non-empty list of
  messages, \<open>L\<close> being the length of the truncated last content. Called with a run manager
  on a prompt whose truncated content is empty (\<open>L = 0\<close>), the generator reads the loop
  variable \<open>token\<close>, which no iteration has bound: it raises \<open>UnboundLocalError\<close> and has
  yielded no chunk where the claim has one.
\<close>

theorem stream_unbound_token_without_content:
  "ChatParrotLink_stream str_list_repr (ChatParrotLink_init 3 ''my_custom_model'')
     [human ''''] None (Some []) [] =
     \<lparr>chunks = [], manager = Some [], raised = Some UnboundLocalError\<rparr> \<and>
   length (chunks (ChatParrotLink_stream str_list_repr (ChatParrotLink_init 3 ''my_custom_model'')
     [human ''''] None (Some []) [])) \<noteq>
   py_len (py_slice_upto (content (last ([human ''''] :: (char, string) BaseMessage list)))
     (parrot_buffer_length (ChatParrotLink_init 3 ''my_custom_model''))) + 1"
  by (simp add: eval_defs)

end
